theory Spec2Isabelle
  imports Main "HOL-Library.Word"
begin

section \<open>Buffers, exceptions and the \<open>struct\<close> module\<close>

text \<open>
  A Python byte string is a list of 8-bit words. Every decoder of the repository
  returns a triple \<open>(record, next class, remaining buffer)\<close> or raises; a raise is
  the \<open>Inl\<close> branch of a sum, a returned triple the \<open>Inr\<close> branch.
\<close>

type_synonym byte = "8 word"
type_synonym bytes = "byte list"

datatype error =
    NameError string
  | SyntaxError
  | TypeError
  | StructError
  | ValueError

text \<open>
  \<open>struct\<close> in network byte order (\<open>!\<close>): standard sizes, no alignment. Only the
  codes the repository uses are given a size: \<open>B\<close> (1 byte), \<open>H\<close> (2), \<open>I\<close> and
  \<open>L\<close> (4). Every value is an unsigned big-endian integer.
\<close>

fun code_size :: "char \<Rightarrow> nat option" where
  "code_size c =
     (if c = CHR ''B'' then Some 1
      else if c = CHR ''H'' then Some 2
      else if c = CHR ''I'' then Some 4
      else if c = CHR ''L'' then Some 4
      else None)"

definition be_nat :: "bytes \<Rightarrow> nat" where
  "be_nat bs = foldl (\<lambda>acc b. 256 * acc + unat b) 0 bs"

fun codes_size :: "string \<Rightarrow> nat" where
  "codes_size [] = 0"
| "codes_size (c # cs) = (case code_size c of None \<Rightarrow> 0 | Some n \<Rightarrow> n) + codes_size cs"

text \<open>\<open>struct.calcsize\<close>, on the formats of this repository (all start with \<open>!\<close>).\<close>

definition struct_calcsize :: "string \<Rightarrow> nat" where
  "struct_calcsize fmt = (case fmt of [] \<Rightarrow> 0 | c # cs \<Rightarrow> if c = CHR ''!'' then codes_size cs else 0)"

fun unpack_codes :: "string \<Rightarrow> bytes \<Rightarrow> error + nat list" where
  "unpack_codes [] buf = Inr []"
| "unpack_codes (c # cs) buf =
     (case code_size c of
        None \<Rightarrow> Inl StructError
      | Some n \<Rightarrow>
          (case unpack_codes cs (drop n buf) of
             Inl e \<Rightarrow> Inl e
           | Inr vs \<Rightarrow> Inr (be_nat (take n buf) # vs)))"

text \<open>
  \<open>struct.unpack_from(fmt, buf)\<close> at offset 0: raises \<open>struct.error\<close> when the buffer
  holds fewer bytes than the format needs, and returns the tuple of values (here a
  list) otherwise; bytes after the format's size are ignored.
\<close>

definition struct_unpack_from :: "string \<Rightarrow> bytes \<Rightarrow> error + nat list" where
  "struct_unpack_from fmt buf =
     (case fmt of
        [] \<Rightarrow> Inl StructError
      | c # cs \<Rightarrow>
          if c \<noteq> CHR ''!'' then Inl StructError
          else if length buf < codes_size cs then Inl StructError
          else unpack_codes cs buf)"

section \<open>Classes\<close>

text \<open>
  The classes of the three modules and their base classes. \<open>super(C, self)\<close> raises
  \<open>TypeError\<close> unless the class of \<open>self\<close> is \<open>C\<close> or derives from it.
\<close>

datatype py_class =
    Cls_PacketBase
  | Cls_FpmHeader
  | Cls_Netlink
  | Cls_RtNetlink
  | Cls_RtAttribute
  | Cls_RtAttrDst
  | Cls_RtAttrOif
  | Cls_RtAttrGateway
  | Cls_RtAttrPriority

fun mro :: "py_class \<Rightarrow> py_class list" where
  "mro Cls_PacketBase = [Cls_PacketBase]"
| "mro Cls_FpmHeader = [Cls_FpmHeader, Cls_PacketBase]"
| "mro Cls_Netlink = [Cls_Netlink, Cls_PacketBase]"
| "mro Cls_RtNetlink = [Cls_RtNetlink, Cls_PacketBase]"
| "mro Cls_RtAttribute = [Cls_RtAttribute, Cls_PacketBase]"
| "mro Cls_RtAttrDst = [Cls_RtAttrDst, Cls_RtAttribute, Cls_PacketBase]"
| "mro Cls_RtAttrOif = [Cls_RtAttrOif, Cls_RtAttribute, Cls_PacketBase]"
| "mro Cls_RtAttrGateway = [Cls_RtAttrGateway, Cls_RtAttribute, Cls_PacketBase]"
| "mro Cls_RtAttrPriority = [Cls_RtAttrPriority, Cls_RtAttribute, Cls_PacketBase]"

definition issubclass :: "py_class \<Rightarrow> py_class \<Rightarrow> bool" where
  "issubclass c d = (d \<in> set (mro c))"

definition py_super :: "py_class \<Rightarrow> py_class \<Rightarrow> error + unit" where
  "py_super c self_cls = (if issubclass self_cls c then Inr () else Inl TypeError)"

section \<open>netlink.py\<close>

record netlink_header =
  nl_length :: nat
  nl_msg_type :: nat
  nl_flags :: nat
  nl_sequence :: nat
  nl_process_port_id :: nat

definition Netlink_PACK_STR :: string where
  "Netlink_PACK_STR = ''!IHHII''"

definition Netlink_MIN_LEN :: nat where
  "Netlink_MIN_LEN = struct_calcsize Netlink_PACK_STR"

definition Netlink_init :: "nat \<Rightarrow> nat \<Rightarrow> nat \<Rightarrow> nat \<Rightarrow> nat \<Rightarrow> error + netlink_header" where
  "Netlink_init len msg_type flags sequence process_port_id =
     (case py_super Cls_Netlink Cls_Netlink of
        Inl e \<Rightarrow> Inl e
      | Inr _ \<Rightarrow>
          Inr \<lparr>nl_length = len, nl_msg_type = msg_type, nl_flags = flags,
               nl_sequence = sequence, nl_process_port_id = process_port_id\<rparr>)"

definition Netlink_parser ::
    "bytes \<Rightarrow> error + (netlink_header option \<times> py_class option \<times> bytes)" where
  "Netlink_parser buf =
     (case struct_unpack_from Netlink_PACK_STR buf of
        Inl e \<Rightarrow> Inl e
      | Inr vals \<Rightarrow>
          (case vals of
             [len, msg_type, flags, sequence, process_port_id] \<Rightarrow>
               (case Netlink_init len msg_type flags sequence process_port_id of
                  Inl e \<Rightarrow> Inl e
                | Inr h \<Rightarrow> Inr (Some h, Some Cls_RtNetlink, drop Netlink_MIN_LEN buf))
           | _ \<Rightarrow> Inl ValueError))"

section \<open>fpm\_header.py\<close>

record fpm_header =
  fpm_version :: nat
  fpm_msg_type :: nat
  fpm_length :: nat

definition FpmHeader_PACK_STR :: string where
  "FpmHeader_PACK_STR = ''!HHI''"

definition FpmHeader_MIN_LEN :: nat where
  "FpmHeader_MIN_LEN = struct_calcsize FpmHeader_PACK_STR"

text \<open>
  \<open>FpmHeader.__init__\<close> opens with \<open>super(Netlink, self).__init__()\<close>, where \<open>self\<close>
  is an \<open>FpmHeader\<close>.
\<close>

definition FpmHeader_init :: "nat \<Rightarrow> nat \<Rightarrow> nat \<Rightarrow> error + fpm_header" where
  "FpmHeader_init version msg_type len =
     (case py_super Cls_Netlink Cls_FpmHeader of
        Inl e \<Rightarrow> Inl e
      | Inr _ \<Rightarrow> Inr \<lparr>fpm_version = version, fpm_msg_type = msg_type, fpm_length = len\<rparr>)"

definition FpmHeader_parser ::
    "bytes \<Rightarrow> error + (fpm_header option \<times> py_class option \<times> bytes)" where
  "FpmHeader_parser buf =
     (case struct_unpack_from FpmHeader_PACK_STR buf of
        Inl e \<Rightarrow> Inl e
      | Inr vals \<Rightarrow>
          (case vals of
             [version, msg_type, len] \<Rightarrow>
               if version \<noteq> 1 then Inr (None, None, buf)
               else if msg_type \<noteq> 1 then Inr (None, None, buf)
               else
                 (case FpmHeader_init version msg_type len of
                    Inl e \<Rightarrow> Inl e
                  | Inr h \<Rightarrow> Inr (Some h, Some Cls_Netlink, drop FpmHeader_MIN_LEN buf))
           | _ \<Rightarrow> Inl ValueError))"

section \<open>Address text\<close>

text \<open>
  Modelled from the spec: \<open>ryu.lib.addrconv\<close> is an external library and is not
  under the repository's sources. The spec asks for the dotted-decimal interpretation
  of a 4-byte payload and for the standard textual form of a 16-byte payload. The
  converters unpack a fixed-size binary value, so a payload of any other size raises
  \<open>struct.error\<close>. The IPv6 text is the canonical form: eight 16-bit groups in
  lower-case hexadecimal without leading zeros, separated by colons, the first longest
  run of two or more zero groups replaced by \<open>::\<close>. An IPv4-mapped address (five
  zero groups, then \<open>ffff\<close>) and an IPv4-compatible address (six zero groups, then a
  group that is not zero) are printed in mixed notation, \<open>::ffff:a.b.c.d\<close> and
  \<open>::a.b.c.d\<close>, their last four bytes in dotted decimal.
\<close>

definition digit_char :: "nat \<Rightarrow> char" where
  "digit_char n = ''0123456789abcdef'' ! (n mod 16)"

fun dec_str :: "nat \<Rightarrow> string" where
  "dec_str n = (if n < 10 then [digit_char n] else dec_str (n div 10) @ [digit_char (n mod 10)])"

fun hex_str :: "nat \<Rightarrow> string" where
  "hex_str n = (if n < 16 then [digit_char n] else hex_str (n div 16) @ [digit_char (n mod 16)])"

declare dec_str.simps [simp del]
declare hex_str.simps [simp del]

fun join_with :: "char \<Rightarrow> string list \<Rightarrow> string" where
  "join_with sep [] = []"
| "join_with sep [s] = s"
| "join_with sep (s # t # ss) = s @ sep # join_with sep (t # ss)"

definition addrconv_ipv4_bin_to_text :: "bytes \<Rightarrow> error + string" where
  "addrconv_ipv4_bin_to_text bin =
     (if length bin \<noteq> 4 then Inl StructError
      else Inr (join_with (CHR ''.'') (map (\<lambda>b. dec_str (unat b)) bin)))"

fun pair_words :: "bytes \<Rightarrow> nat list" where
  "pair_words (a # b # rest) = be_nat [a, b] # pair_words rest"
| "pair_words _ = []"

fun best_run :: "nat list \<Rightarrow> nat \<Rightarrow> nat \<times> nat \<Rightarrow> nat \<times> nat" where
  "best_run [] i best = best"
| "best_run (w # ws) i best =
     (let n = length (takeWhile (\<lambda>x. x = 0) (w # ws))
      in if snd best < n then best_run ws (Suc i) (i, n) else best_run ws (Suc i) best)"

definition ipv6_text :: "nat list \<Rightarrow> string" where
  "ipv6_text ws =
     (let (base, len) = best_run ws 0 (0, 1)
      in if len < 2 then join_with (CHR '':'') (map hex_str ws)
         else join_with (CHR '':'') (map hex_str (take base ws)) @ ''::'' @
              join_with (CHR '':'') (map hex_str (drop (base + len) ws)))"

definition inet_ntop6 :: "bytes \<Rightarrow> string" where
  "inet_ntop6 bin =
     (let ws = pair_words bin;
          v4 = join_with (CHR ''.'') (map (\<lambda>b. dec_str (unat b)) (drop 12 bin))
      in if take 5 ws = [0, 0, 0, 0, 0] \<and> take 1 (drop 5 ws) = [65535] then ''::ffff:'' @ v4
         else if take 6 ws = [0, 0, 0, 0, 0, 0] \<and> take 1 (drop 6 ws) \<noteq> [0] then ''::'' @ v4
         else ipv6_text ws)"

definition addrconv_ipv6_bin_to_text :: "bytes \<Rightarrow> error + string" where
  "addrconv_ipv6_bin_to_text bin =
     (if length bin \<noteq> 16 then Inl StructError else Inr (inet_ntop6 bin))"

section \<open>rtnetlink.py\<close>

text \<open>
  Two names are loaded as globals inside method bodies: \<open>_MIN_LEN\<close> in
  \<open>RtAttribute.parser\<close> and \<open>_PACK_STR\<close> in the constructors of \<open>RtAttrOif\<close> and
  \<open>RtAttrPriority\<close>. A method body does not see the names of its class body, so Python
  looks them up in the module's global namespace at the time of the call and raises
  \<open>NameError\<close> when they are unbound. The namespace is therefore an argument of the
  model; \<open>rtnetlink_globals\<close> is the namespace as the module's own top level leaves it,
  with neither name bound. \<open>class_attributes\<close> is the namespace in which the two names
  have the values of the class attributes written next to the methods.

  The constructors of \<open>RtAttrDst\<close> and \<open>RtAttrGateway\<close> spell their second branch
  \<open>else if length == 16:\<close>. That is not Python: the text of these two constructors
  does not compile, and as written they construct nothing (\<open>SyntaxError\<close>). The same
  record says how the text is taken: \<open>else_if_as_elif\<close> is false for the module as
  written, and true where \<open>else if\<close> is read as \<open>elif\<close>, the reading under which
  the two constructors have a body at all. \<open>rtnetlink_globals\<close> is the module as
  written; \<open>class_attributes\<close> is the module with its names resolved and \<open>else if\<close>
  read as \<open>elif\<close>. The dispatch table \<open>attr_cls_map\<close> is the mapping its display
  denotes.
\<close>

record namespace =
  g_MIN_LEN :: "nat option"
  g_PACK_STR :: "string option"
  else_if_as_elif :: bool

definition rtnetlink_globals :: namespace where
  "rtnetlink_globals = \<lparr>g_MIN_LEN = None, g_PACK_STR = None, else_if_as_elif = False\<rparr>"

definition load_MIN_LEN :: "namespace \<Rightarrow> error + nat" where
  "load_MIN_LEN ns = (case g_MIN_LEN ns of None \<Rightarrow> Inl (NameError ''_MIN_LEN'') | Some v \<Rightarrow> Inr v)"

definition load_PACK_STR :: "namespace \<Rightarrow> error + string" where
  "load_PACK_STR ns = (case g_PACK_STR ns of None \<Rightarrow> Inl (NameError ''_PACK_STR'') | Some v \<Rightarrow> Inr v)"

definition RTA_DST :: nat where "RTA_DST = 1"
definition RTA_OIF :: nat where "RTA_OIF = 4"
definition RTA_GATEWAY :: nat where "RTA_GATEWAY = 5"
definition RTA_PRIORITY :: nat where "RTA_PRIORITY = 6"

text \<open>
  The attribute classes. \<open>struct.unpack_from\<close> returns a tuple, and the constructors
  of \<open>RtAttrOif\<close> and \<open>RtAttrPriority\<close> store that tuple unindexed: the field is a
  list of values.
\<close>

datatype rt_attr =
    RtAttrDst (attr_length: nat) (attr_type: nat) (dst_address: "string option")
  | RtAttrOif (attr_length: nat) (attr_type: nat) (oif: "nat list option")
  | RtAttrGateway (attr_length: nat) (attr_type: nat) (gateway: "string option")
  | RtAttrPriority (attr_length: nat) (attr_type: nat) (pirority: "nat list option")

definition RtAttribute_PACK_STR :: string where
  "RtAttribute_PACK_STR = ''!HH''"

definition RtAttribute_MIN_LEN :: nat where
  "RtAttribute_MIN_LEN = struct_calcsize RtAttribute_PACK_STR"

definition RtAttrOif_PACK_STR :: string where
  "RtAttrOif_PACK_STR = ''!I''"

definition RtAttrPriority_PACK_STR :: string where
  "RtAttrPriority_PACK_STR = ''!I''"

definition class_attributes :: namespace where
  "class_attributes =
     \<lparr>g_MIN_LEN = Some RtAttribute_MIN_LEN, g_PACK_STR = Some RtAttrOif_PACK_STR,
      else_if_as_elif = True\<rparr>"

definition RtAttribute_init :: "py_class \<Rightarrow> nat \<Rightarrow> nat \<Rightarrow> error + (nat \<times> nat)" where
  "RtAttribute_init self_cls len atype =
     (case py_super Cls_RtAttribute self_cls of Inl e \<Rightarrow> Inl e | Inr _ \<Rightarrow> Inr (len, atype))"

definition RtAttrDst_init :: "namespace \<Rightarrow> nat \<Rightarrow> nat \<Rightarrow> bytes \<Rightarrow> error + rt_attr" where
  "RtAttrDst_init ns len atype attr_data =
     (if \<not> else_if_as_elif ns then Inl SyntaxError
      else case py_super Cls_RtAttrDst Cls_RtAttrDst of
        Inl e \<Rightarrow> Inl e
      | Inr _ \<Rightarrow>
          (case RtAttribute_init Cls_RtAttrDst len atype of
             Inl e \<Rightarrow> Inl e
           | Inr (l, t) \<Rightarrow>
               if len = 4 then
                 (case addrconv_ipv4_bin_to_text attr_data of
                    Inl e \<Rightarrow> Inl e
                  | Inr a \<Rightarrow> Inr (RtAttrDst l t (Some a)))
               else if len = 16 then
                 (case addrconv_ipv6_bin_to_text attr_data of
                    Inl e \<Rightarrow> Inl e
                  | Inr a \<Rightarrow> Inr (RtAttrDst l t (Some a)))
               else Inr (RtAttrDst l t None)))"

definition RtAttrOif_init :: "namespace \<Rightarrow> nat \<Rightarrow> nat \<Rightarrow> bytes \<Rightarrow> error + rt_attr" where
  "RtAttrOif_init ns len atype attr_data =
     (case py_super Cls_RtAttrOif Cls_RtAttrOif of
        Inl e \<Rightarrow> Inl e
      | Inr _ \<Rightarrow>
          (case RtAttribute_init Cls_RtAttrOif len atype of
             Inl e \<Rightarrow> Inl e
           | Inr (l, t) \<Rightarrow>
               if len \<noteq> 4 then Inr (RtAttrOif l t None)
               else
                 (case load_PACK_STR ns of
                    Inl e \<Rightarrow> Inl e
                  | Inr fmt \<Rightarrow>
                      (case struct_unpack_from fmt attr_data of
                         Inl e \<Rightarrow> Inl e
                       | Inr vals \<Rightarrow> Inr (RtAttrOif l t (Some vals))))))"

definition RtAttrGateway_init :: "namespace \<Rightarrow> nat \<Rightarrow> nat \<Rightarrow> bytes \<Rightarrow> error + rt_attr" where
  "RtAttrGateway_init ns len atype attr_data =
     (if \<not> else_if_as_elif ns then Inl SyntaxError
      else case py_super Cls_RtAttrGateway Cls_RtAttrGateway of
        Inl e \<Rightarrow> Inl e
      | Inr _ \<Rightarrow>
          (case RtAttribute_init Cls_RtAttrGateway len atype of
             Inl e \<Rightarrow> Inl e
           | Inr (l, t) \<Rightarrow>
               if len = 4 then
                 (case addrconv_ipv4_bin_to_text attr_data of
                    Inl e \<Rightarrow> Inl e
                  | Inr a \<Rightarrow> Inr (RtAttrGateway l t (Some a)))
               else if len = 16 then
                 (case addrconv_ipv6_bin_to_text attr_data of
                    Inl e \<Rightarrow> Inl e
                  | Inr a \<Rightarrow> Inr (RtAttrGateway l t (Some a)))
               else Inr (RtAttrGateway l t None)))"

definition RtAttrPriority_init :: "namespace \<Rightarrow> nat \<Rightarrow> nat \<Rightarrow> bytes \<Rightarrow> error + rt_attr" where
  "RtAttrPriority_init ns len atype attr_data =
     (case py_super Cls_RtAttrPriority Cls_RtAttrPriority of
        Inl e \<Rightarrow> Inl e
      | Inr _ \<Rightarrow>
          (case RtAttribute_init Cls_RtAttrPriority len atype of
             Inl e \<Rightarrow> Inl e
           | Inr (l, t) \<Rightarrow>
               if len \<noteq> 4 then Inr (RtAttrPriority l t None)
               else
                 (case load_PACK_STR ns of
                    Inl e \<Rightarrow> Inl e
                  | Inr fmt \<Rightarrow>
                      (case struct_unpack_from fmt attr_data of
                         Inl e \<Rightarrow> Inl e
                       | Inr vals \<Rightarrow> Inr (RtAttrPriority l t (Some vals))))))"

definition attr_cls_map :: "nat \<rightharpoonup> py_class" where
  "attr_cls_map =
     map_of [(RTA_DST, Cls_RtAttrDst), (RTA_OIF, Cls_RtAttrOif),
             (RTA_GATEWAY, Cls_RtAttrGateway), (RTA_PRIORITY, Cls_RtAttrPriority)]"

definition RtAttribute_get_attr_cls :: "nat \<Rightarrow> py_class option" where
  "RtAttribute_get_attr_cls atype = attr_cls_map atype"

text \<open>The call \<open>attr_cls(length, attr_type, attr_data)\<close> on a class of the table.\<close>

definition call_attr_cls ::
    "namespace \<Rightarrow> py_class \<Rightarrow> nat \<Rightarrow> nat \<Rightarrow> bytes \<Rightarrow> error + rt_attr" where
  "call_attr_cls ns c len atype attr_data =
     (if c = Cls_RtAttrDst then RtAttrDst_init ns len atype attr_data
      else if c = Cls_RtAttrOif then RtAttrOif_init ns len atype attr_data
      else if c = Cls_RtAttrGateway then RtAttrGateway_init ns len atype attr_data
      else if c = Cls_RtAttrPriority then RtAttrPriority_init ns len atype attr_data
      else Inl TypeError)"

text \<open>
  \<open>RtAttribute.parser\<close>, called on \<open>RtAttribute\<close> itself as the attribute loop does.
  The slice \<open>buf[a:a + n]\<close> is \<open>take n (drop a buf)\<close>: Python clamps a slice to the
  bytes there are.
\<close>

definition RtAttribute_parser ::
    "namespace \<Rightarrow> bytes \<Rightarrow> error + (rt_attr option \<times> py_class option \<times> bytes)" where
  "RtAttribute_parser ns buf =
     (case load_MIN_LEN ns of
        Inl e \<Rightarrow> Inl e
      | Inr min_len \<Rightarrow>
          if length buf < min_len then Inr (None, None, buf)
          else
            (case struct_unpack_from RtAttribute_PACK_STR buf of
               Inl e \<Rightarrow> Inl e
             | Inr vals \<Rightarrow>
                 (case vals of
                    [len, atype] \<Rightarrow>
                      (let attr_data = take len (drop RtAttribute_MIN_LEN buf)
                       in case RtAttribute_get_attr_cls atype of
                            None \<Rightarrow> Inr (None, None, drop (RtAttribute_MIN_LEN + len) buf)
                          | Some attr_cls \<Rightarrow>
                              (case call_attr_cls ns attr_cls len atype attr_data of
                                 Inl e \<Rightarrow> Inl e
                               | Inr attr \<Rightarrow>
                                   Inr (Some attr, None, drop (RtAttribute_MIN_LEN + len) buf)))
                  | _ \<Rightarrow> Inl ValueError)))"

record rtnetlink =
  rtm_address_family :: nat
  rtm_dst_len :: nat
  rtm_src_len :: nat
  rtm_tos :: nat
  rtm_table :: nat
  rtm_protocol :: nat
  rtm_scope :: nat
  rtm_msg_type :: nat
  rtm_flags :: nat
  rtm_rt_attrs :: "rt_attr list"

definition RtNetlink_PACK_STR :: string where
  "RtNetlink_PACK_STR = ''!BBBBBBBBL''"

definition RtNetlink_MIN_LEN :: nat where
  "RtNetlink_MIN_LEN = struct_calcsize RtNetlink_PACK_STR"

definition RtNetlink_init ::
    "nat \<Rightarrow> nat \<Rightarrow> nat \<Rightarrow> nat \<Rightarrow> nat \<Rightarrow> nat \<Rightarrow> nat \<Rightarrow> nat \<Rightarrow> nat \<Rightarrow> rt_attr list
      \<Rightarrow> error + rtnetlink" where
  "RtNetlink_init address_family dst_len src_len tos table protocol scope msg_type flags rt_attrs =
     (case py_super Cls_RtNetlink Cls_RtNetlink of
        Inl e \<Rightarrow> Inl e
      | Inr _ \<Rightarrow>
          Inr \<lparr>rtm_address_family = address_family, rtm_dst_len = dst_len,
               rtm_src_len = src_len, rtm_tos = tos, rtm_table = table,
               rtm_protocol = protocol, rtm_scope = scope, rtm_msg_type = msg_type,
               rtm_flags = flags,
               rtm_rt_attrs = (if rt_attrs \<noteq> [] then rt_attrs else [])\<rparr>)"

text \<open>
  The attribute loop of \<open>RtNetlink.parser\<close>: \<open>while buf\<close> runs while the buffer is
  not empty; \<open>if not rt_attr: break\<close> leaves it on \<open>None\<close> (an attribute object is
  true: its \<open>__len__\<close> is the class's \<open>_MIN_LEN\<close>, which is 4). The loop has no bound
  of its own, so it is a partial function: \<open>None\<close> stands for not returning.
\<close>

partial_function (option) RtNetlink_attr_loop ::
    "namespace \<Rightarrow> bytes \<Rightarrow> rt_attr list \<Rightarrow> (error + (rt_attr list \<times> bytes)) option" where
  "RtNetlink_attr_loop ns buf rt_atts =
     (if buf = [] then Some (Inr (rt_atts, buf))
      else
        (case RtAttribute_parser ns buf of
           Inl e \<Rightarrow> Some (Inl e)
         | Inr (rt_attr, ncls, buf') \<Rightarrow>
             (case rt_attr of
                None \<Rightarrow> Some (Inr (rt_atts, buf'))
              | Some a \<Rightarrow> RtNetlink_attr_loop ns (drop (attr_length a) buf') (rt_atts @ [a]))))"

declare RtNetlink_attr_loop.simps [code]

definition RtNetlink_parser ::
    "namespace \<Rightarrow> bytes \<Rightarrow> (error + (rtnetlink option \<times> py_class option \<times> bytes)) option" where
  "RtNetlink_parser ns buf =
     (case struct_unpack_from RtNetlink_PACK_STR buf of
        Inl e \<Rightarrow> Some (Inl e)
      | Inr vals \<Rightarrow>
          (case vals of
             [address_family, dst_len, src_len, tos, table, protocol, scope, msg_type, flags] \<Rightarrow>
               (case RtNetlink_attr_loop ns (drop RtNetlink_MIN_LEN buf) [] of
                  None \<Rightarrow> None
                | Some (Inl e) \<Rightarrow> Some (Inl e)
                | Some (Inr (rt_atts, buf')) \<Rightarrow>
                    (case RtNetlink_init address_family dst_len src_len tos table protocol
                            scope msg_type flags rt_atts of
                       Inl e \<Rightarrow> Some (Inl e)
                     | Inr m \<Rightarrow> Some (Inr (Some m, None, buf'))))
           | _ \<Rightarrow> Some (Inl ValueError)))"

section \<open>Concrete messages\<close>

text \<open>
  An RTNETLINK header of 12 bytes (address family 2, destination length 24, table 254,
  protocol 11, route type 1), and an attribute region of two attributes back to back:
  OIF with the 4-byte value 3, then PRIORITY with the 4-byte value 100.
\<close>

definition rtm_header_bytes :: bytes where
  "rtm_header_bytes = [2, 24, 0, 0, 254, 11, 0, 1, 0, 0, 0, 0]"

definition oif_priority_attrs :: bytes where
  "oif_priority_attrs = [0, 4, 0, 4, 0, 0, 0, 3, 0, 4, 0, 6, 0, 0, 0, 100]"

text \<open>
  An attribute of the unknown type 99 with a 4-byte payload, followed by an OIF
  attribute with the value 3; and an OIF attribute that declares 4 payload bytes where
  only 2 remain.
\<close>

definition unknown_then_oif_attrs :: bytes where
  "unknown_then_oif_attrs = [0, 4, 0, 99, 1, 2, 3, 4, 0, 4, 0, 4, 0, 0, 0, 3]"

definition truncated_oif_attr :: bytes where
  "truncated_oif_attr = [0, 4, 0, 4, 0, 0]"

section \<open>Sizes, headers and constructors\<close>

lemma min_lens:
  "FpmHeader_MIN_LEN = 8" "Netlink_MIN_LEN = 16" "RtNetlink_MIN_LEN = 12" "RtAttribute_MIN_LEN = 4"
  by (simp_all add: FpmHeader_MIN_LEN_def FpmHeader_PACK_STR_def Netlink_MIN_LEN_def
      Netlink_PACK_STR_def RtNetlink_MIN_LEN_def RtNetlink_PACK_STR_def RtAttribute_MIN_LEN_def
      RtAttribute_PACK_STR_def struct_calcsize_def)

lemma unpack_short:
  "length buf < 8 \<Longrightarrow> struct_unpack_from FpmHeader_PACK_STR buf = Inl StructError"
  "length buf < 16 \<Longrightarrow> struct_unpack_from Netlink_PACK_STR buf = Inl StructError"
  "length buf < 12 \<Longrightarrow> struct_unpack_from RtNetlink_PACK_STR buf = Inl StructError"
  "length buf < 4 \<Longrightarrow> struct_unpack_from RtAttribute_PACK_STR buf = Inl StructError"
  by (simp_all add: struct_unpack_from_def FpmHeader_PACK_STR_def Netlink_PACK_STR_def
      RtNetlink_PACK_STR_def RtAttribute_PACK_STR_def)

lemma unpack_attr_header:
  "4 \<le> length buf \<Longrightarrow>
     struct_unpack_from RtAttribute_PACK_STR buf =
       Inr [be_nat (take 2 buf), be_nat (take 2 (drop 2 buf))]"
  by (simp add: struct_unpack_from_def RtAttribute_PACK_STR_def)

lemma unpack_fpm_header:
  "8 \<le> length buf \<Longrightarrow>
     struct_unpack_from FpmHeader_PACK_STR buf =
       Inr [be_nat (take 2 buf), be_nat (take 2 (drop 2 buf)), be_nat (take 4 (drop 4 buf))]"
  by (simp add: struct_unpack_from_def FpmHeader_PACK_STR_def)

lemma super_self: "py_super c c = Inr ()"
  by (cases c) (simp_all add: py_super_def issubclass_def)

lemma RtAttribute_init_ok:
  "RtAttribute_init Cls_RtAttrDst l t = Inr (l, t)"
  "RtAttribute_init Cls_RtAttrOif l t = Inr (l, t)"
  "RtAttribute_init Cls_RtAttrGateway l t = Inr (l, t)"
  "RtAttribute_init Cls_RtAttrPriority l t = Inr (l, t)"
  by (simp_all add: RtAttribute_init_def py_super_def issubclass_def)

lemma drop_header: "drop (4 + n) (a # b # c # d # xs) = drop n xs"
  by (simp add: eval_nat_numeral)

section \<open>The FPM header\<close>

lemma FpmHeader_init_raises: "FpmHeader_init version msg_type len = Inl TypeError"
  by (simp add: FpmHeader_init_def py_super_def issubclass_def)

text \<open>
  The soft skip: a buffer of at least 8 bytes whose version or message type is not 1
  comes back untouched, with no record and no next class.
\<close>

lemma FpmHeader_parser_soft_skip:
  assumes "8 \<le> length buf"
    and "be_nat (take 2 buf) \<noteq> 1 \<or> be_nat (take 2 (drop 2 buf)) \<noteq> 1"
  shows "FpmHeader_parser buf = Inr (None, None, buf)"
  using assms by (auto simp add: FpmHeader_parser_def unpack_fpm_header)

text \<open>
  The accepting path: with version 1 and message type 1 the parser calls the
  constructor, whose \<open>super(Netlink, self)\<close> raises \<open>TypeError\<close>, since \<open>FpmHeader\<close>
  does not derive from \<open>Netlink\<close>.
\<close>

lemma FpmHeader_parser_accept_raises:
  assumes "8 \<le> length buf" and "be_nat (take 2 buf) = 1" and "be_nat (take 2 (drop 2 buf)) = 1"
  shows "FpmHeader_parser buf = Inl TypeError"
  using assms by (simp add: FpmHeader_parser_def unpack_fpm_header FpmHeader_init_raises)

text \<open>
  C3. The claim: a buffer of at least 8 bytes with version 1 and message type 1 decodes
  to an \<open>FpmHeader\<close> record, the next class \<open>Netlink\<close> and the buffer after the first 8
  bytes. On the 8 bytes \<open>00 01 00 01 00 00 00 08\<close> (version 1, message type 1, length 8)
  \<open>FpmHeader.parser\<close> raises \<open>TypeError\<close> instead: no record is returned.
\<close>

theorem c3_fpm_accept_raises:
  "FpmHeader_parser [0, 1, 0, 1, 0, 0, 0, 8] = Inl TypeError"
  by (simp add: FpmHeader_parser_accept_raises be_nat_def)

section \<open>The Netlink header\<close>

text \<open>
  C7, as stated, at a buffer of exactly 12 bytes: the format \<open>!IHHII\<close> needs 16 bytes,
  so \<open>Netlink.parser\<close> raises \<open>struct.error\<close> and returns no header.
\<close>

theorem c7_netlink_twelve_bytes_raise:
  "Netlink_parser [0, 0, 0, 28, 0, 24, 0, 1, 0, 0, 0, 1] = Inl StructError"
  by (simp add: Netlink_parser_def unpack_short)

text \<open>
  C7, amended: for every buffer of at least 16 bytes \<open>Netlink.parser\<close> reads the five
  fields length (4 bytes), msg\_type (2), flags (2), sequence (4) and process\_port\_id
  (4) as big-endian unsigned integers, accepts any msg\_type, and returns the header,
  the class \<open>RtNetlink\<close> as the next decoder, and the buffer after exactly 16 bytes.
\<close>

theorem c7_netlink_sixteen_bytes:
  "Netlink_parser (b0 # b1 # b2 # b3 # b4 # b5 # b6 # b7 # b8 # b9 # b10 # b11 # b12 # b13 #
                   b14 # b15 # rest) =
     Inr (Some \<lparr>nl_length = 16777216 * unat b0 + 65536 * unat b1 + 256 * unat b2 + unat b3,
                nl_msg_type = 256 * unat b4 + unat b5,
                nl_flags = 256 * unat b6 + unat b7,
                nl_sequence = 16777216 * unat b8 + 65536 * unat b9 + 256 * unat b10 + unat b11,
                nl_process_port_id =
                  16777216 * unat b12 + 65536 * unat b13 + 256 * unat b14 + unat b15\<rparr>,
          Some Cls_RtNetlink, rest)"
  by (simp add: Netlink_parser_def Netlink_PACK_STR_def struct_unpack_from_def be_nat_def
      Netlink_init_def py_super_def issubclass_def min_lens)

section \<open>Address attributes\<close>

lemma ipv4_text_4:
  "addrconv_ipv4_bin_to_text [a, b, c, d] =
     Inr (dec_str (unat a) @ ''.'' @ dec_str (unat b) @ ''.'' @ dec_str (unat c) @ ''.'' @
          dec_str (unat d))"
  by (simp add: addrconv_ipv4_bin_to_text_def)

text \<open>
  As written, the two address constructors construct nothing, whatever the length and
  the payload.
\<close>

lemma address_constructors_as_written:
  "RtAttrDst_init rtnetlink_globals len t attr_data = Inl SyntaxError"
  "RtAttrGateway_init rtnetlink_globals len t attr_data = Inl SyntaxError"
  by (simp_all add: RtAttrDst_init_def RtAttrGateway_init_def rtnetlink_globals_def)

text \<open>
  With \<open>else if\<close> read as \<open>elif\<close>, the chain selects by the declared length: 4 gives
  the dotted-decimal text of a 4-byte payload, 16 the IPv6 text of a 16-byte payload,
  any other length no address.
\<close>

lemma address_by_length_read_as_elif:
  assumes "else_if_as_elif ns"
  shows "RtAttrDst_init ns 4 t [a, b, c, d] =
           Inr (RtAttrDst 4 t (Some (dec_str (unat a) @ ''.'' @ dec_str (unat b) @ ''.'' @
                                     dec_str (unat c) @ ''.'' @ dec_str (unat d))))"
    and "RtAttrGateway_init ns 4 t [a, b, c, d] =
           Inr (RtAttrGateway 4 t (Some (dec_str (unat a) @ ''.'' @ dec_str (unat b) @ ''.'' @
                                         dec_str (unat c) @ ''.'' @ dec_str (unat d))))"
    and "length attr_data = 16 \<Longrightarrow>
           RtAttrDst_init ns 16 t attr_data = Inr (RtAttrDst 16 t (Some (inet_ntop6 attr_data)))"
    and "length attr_data = 16 \<Longrightarrow>
           RtAttrGateway_init ns 16 t attr_data =
             Inr (RtAttrGateway 16 t (Some (inet_ntop6 attr_data)))"
    and "len \<noteq> 4 \<Longrightarrow> len \<noteq> 16 \<Longrightarrow>
           RtAttrDst_init ns len t any_data = Inr (RtAttrDst len t None)"
    and "len \<noteq> 4 \<Longrightarrow> len \<noteq> 16 \<Longrightarrow>
           RtAttrGateway_init ns len t any_data = Inr (RtAttrGateway len t None)"
  using assms
  by (simp_all add: RtAttrDst_init_def RtAttrGateway_init_def super_self RtAttribute_init_ok
      ipv4_text_4 addrconv_ipv6_bin_to_text_def)

lemma inet_ntop6_examples:
  "inet_ntop6 [32, 1, 13, 184, 0, 0, 0, 0, 0, 0, 0, 0, 0, 0, 0, 1] = ''2001:db8::1''"
  "inet_ntop6 [0, 0, 0, 0, 0, 0, 0, 0, 0, 0, 0, 0, 0, 0, 0, 1] = ''::1''"
  "inet_ntop6 [0, 0, 0, 0, 0, 0, 0, 0, 0, 0, 255, 255, 10, 0, 0, 1] = ''::ffff:10.0.0.1''"
  "inet_ntop6 [0, 0, 0, 0, 0, 0, 0, 0, 0, 0, 0, 0, 10, 0, 0, 1] = ''::10.0.0.1''"
  by (simp_all add: inet_ntop6_def ipv6_text_def dec_str.simps hex_str.simps be_nat_def
      digit_char_def)

text \<open>
  C5. The claim: a Destination or Gateway attribute with a 4-byte payload holds the
  dotted-decimal text of the four bytes, one with a 16-byte payload the text of the
  IPv6 address, and any other length gives no address. On the Destination attribute
  of length 4 with the payload \<open>0a 00 00 01\<close> and on the Gateway attribute of length
  4 with the payload \<open>0a 00 00 fe\<close>, the constructors as written give no attribute:
  their text has \<open>else if\<close> where Python needs \<open>elif\<close> and does not compile. Read as
  \<open>elif\<close>, the same calls give \<open>10.0.0.1\<close> and \<open>10.0.0.254\<close>.
\<close>

theorem c5_address_constructors_do_not_compile:
  "RtAttrDst_init rtnetlink_globals 4 1 [10, 0, 0, 1] = Inl SyntaxError \<and>
   RtAttrGateway_init rtnetlink_globals 4 5 [10, 0, 0, 254] = Inl SyntaxError \<and>
   RtAttrDst_init class_attributes 4 1 [10, 0, 0, 1] = Inr (RtAttrDst 4 1 (Some ''10.0.0.1'')) \<and>
   RtAttrGateway_init class_attributes 4 5 [10, 0, 0, 254] =
     Inr (RtAttrGateway 4 5 (Some ''10.0.0.254''))"
  by (simp add: address_constructors_as_written address_by_length_read_as_elif
      class_attributes_def dec_str.simps digit_char_def)

section \<open>The attribute parser\<close>

lemma class_attributes_simps:
  "g_MIN_LEN class_attributes = Some 4" "g_PACK_STR class_attributes = Some ''!I''"
  "else_if_as_elif class_attributes"
  by (simp_all add: class_attributes_def min_lens RtAttrOif_PACK_STR_def)

lemma get_attr_cls_cases:
  "RtAttribute_get_attr_cls t =
     (if t = 1 then Some Cls_RtAttrDst else if t = 4 then Some Cls_RtAttrOif
      else if t = 5 then Some Cls_RtAttrGateway else if t = 6 then Some Cls_RtAttrPriority
      else None)"
  by (simp add: RtAttribute_get_attr_cls_def attr_cls_map_def RTA_DST_def RTA_OIF_def
      RTA_GATEWAY_def RTA_PRIORITY_def)

lemma RtAttribute_parser_unbound:
  "RtAttribute_parser rtnetlink_globals buf = Inl (NameError ''_MIN_LEN'')"
  by (simp add: RtAttribute_parser_def load_MIN_LEN_def rtnetlink_globals_def)

lemma RtAttribute_parser_short:
  "g_MIN_LEN ns = Some m \<Longrightarrow> length buf < m \<Longrightarrow>
     RtAttribute_parser ns buf = Inr (None, None, buf)"
  by (simp add: RtAttribute_parser_def load_MIN_LEN_def)

lemma RtAttribute_parser_header:
  assumes "g_MIN_LEN ns = Some m" and "m \<le> length buf" and "4 \<le> length buf"
  shows "RtAttribute_parser ns buf =
     (case RtAttribute_get_attr_cls (be_nat (take 2 (drop 2 buf))) of
        None \<Rightarrow> Inr (None, None, drop (4 + be_nat (take 2 buf)) buf)
      | Some attr_cls \<Rightarrow>
          (case call_attr_cls ns attr_cls (be_nat (take 2 buf)) (be_nat (take 2 (drop 2 buf)))
                  (take (be_nat (take 2 buf)) (drop 4 buf)) of
             Inl e \<Rightarrow> Inl e
           | Inr attr \<Rightarrow> Inr (Some attr, None, drop (4 + be_nat (take 2 buf)) buf)))"
  using assms
  by (simp add: RtAttribute_parser_def load_MIN_LEN_def unpack_attr_header min_lens
      split: option.splits sum.splits)

lemma RtAttribute_parser_cons:
  "RtAttribute_parser class_attributes (l1 # l0 # t1 # t0 # rest) =
     (case RtAttribute_get_attr_cls (256 * unat t1 + unat t0) of
        None \<Rightarrow> Inr (None, None, drop (256 * unat l1 + unat l0) rest)
      | Some attr_cls \<Rightarrow>
          (case call_attr_cls class_attributes attr_cls (256 * unat l1 + unat l0)
                  (256 * unat t1 + unat t0) (take (256 * unat l1 + unat l0) rest) of
             Inl e \<Rightarrow> Inl e
           | Inr attr \<Rightarrow> Inr (Some attr, None, drop (256 * unat l1 + unat l0) rest)))"
  by (simp add: RtAttribute_parser_header [where m = 4] class_attributes_simps be_nat_def
      drop_header split: option.splits sum.splits)

text \<open>
  Whenever the parser returns an attribute, the buffer it returns is shorter than its
  input by at least the 4 bytes of the header.
\<close>

lemma RtAttribute_parser_progress:
  assumes "RtAttribute_parser ns buf = Inr (Some a, ncls, buf')"
  shows "length buf' + 4 \<le> length buf"
proof -
  from assms obtain m where m: "g_MIN_LEN ns = Some m"
    by (auto simp add: RtAttribute_parser_def load_MIN_LEN_def split: option.splits)
  from assms m have ge: "m \<le> length buf"
    by (auto simp add: RtAttribute_parser_def load_MIN_LEN_def split: if_splits)
  have four: "4 \<le> length buf"
  proof (rule ccontr)
    assume "\<not> 4 \<le> length buf"
    then have "struct_unpack_from RtAttribute_PACK_STR buf = Inl StructError"
      by (simp add: unpack_short)
    with assms m ge show False
      by (simp add: RtAttribute_parser_def load_MIN_LEN_def)
  qed
  from assms have "buf' = drop (4 + be_nat (take 2 buf)) buf"
    by (auto simp add: RtAttribute_parser_header [OF m ge four] split: option.splits sum.splits)
  with four show ?thesis by simp
qed

section \<open>The attribute loop\<close>

lemma loop_Nil: "RtNetlink_attr_loop ns [] rt_atts = Some (Inr (rt_atts, []))"
  by (subst RtNetlink_attr_loop.simps) simp

lemma loop_raise:
  "buf \<noteq> [] \<Longrightarrow> RtAttribute_parser ns buf = Inl e \<Longrightarrow>
     RtNetlink_attr_loop ns buf rt_atts = Some (Inl e)"
  by (subst RtNetlink_attr_loop.simps) simp

lemma loop_break:
  "buf \<noteq> [] \<Longrightarrow> RtAttribute_parser ns buf = Inr (None, ncls, buf') \<Longrightarrow>
     RtNetlink_attr_loop ns buf rt_atts = Some (Inr (rt_atts, buf'))"
  by (subst RtNetlink_attr_loop.simps) simp

lemma loop_step:
  "buf \<noteq> [] \<Longrightarrow> RtAttribute_parser ns buf = Inr (Some a, ncls, buf') \<Longrightarrow>
     RtNetlink_attr_loop ns buf rt_atts =
       RtNetlink_attr_loop ns (drop (attr_length a) buf') (rt_atts @ [a])"
  by (subst RtNetlink_attr_loop.simps) simp

lemma RtNetlink_attr_loop_returns:
  "\<exists>r. RtNetlink_attr_loop ns buf rt_atts = Some r"
proof (induction "length buf" arbitrary: buf rt_atts rule: less_induct)
  case less
  show ?case
  proof (cases "buf = []")
    case True
    then show ?thesis by (simp add: loop_Nil)
  next
    case False
    show ?thesis
    proof (cases "RtAttribute_parser ns buf")
      case (Inl e)
      with False show ?thesis by (simp add: loop_raise)
    next
      case (Inr res)
      obtain rt_attr ncls buf' where res: "res = (rt_attr, ncls, buf')"
        by (cases res) auto
      show ?thesis
      proof (cases rt_attr)
        case None
        with False Inr res show ?thesis by (simp add: loop_break)
      next
        case (Some a)
        with Inr res have parsed: "RtAttribute_parser ns buf = Inr (Some a, ncls, buf')"
          by simp
        then have "length buf' + 4 \<le> length buf"
          by (rule RtAttribute_parser_progress)
        then have "length (drop (attr_length a) buf') < length buf" by simp
        from less [OF this] obtain r where
          "RtNetlink_attr_loop ns (drop (attr_length a) buf') (rt_atts @ [a]) = Some r"
          by blast
        with False parsed show ?thesis by (simp add: loop_step)
      qed
    qed
  qed
qed

text \<open>
  C9. The attribute loop returns for every namespace, buffer and list of attributes
  collected so far (with a result or with a raised exception, never without end), and
  so does \<open>RtNetlink.parser\<close>. Each pass that does not leave the loop shortens the
  buffer by at least the 4 bytes of an attribute header.
\<close>

theorem c9_attr_loop_terminates:
  "(\<exists>r. RtNetlink_attr_loop ns buf rt_atts = Some r) \<and> (\<exists>r. RtNetlink_parser ns buf = Some r)"
proof
  show "\<exists>r. RtNetlink_attr_loop ns buf rt_atts = Some r"
    by (rule RtNetlink_attr_loop_returns)
next
  obtain r where "RtNetlink_attr_loop ns (drop RtNetlink_MIN_LEN buf) [] = Some r"
    using RtNetlink_attr_loop_returns by blast
  then show "\<exists>r. RtNetlink_parser ns buf = Some r"
    by (auto simp add: RtNetlink_parser_def split: sum.splits list.splits)
qed

section \<open>The RTNETLINK message\<close>

lemma RtNetlink_parser_short:
  "length buf < 12 \<Longrightarrow> RtNetlink_parser ns buf = Some (Inl StructError)"
  by (simp add: RtNetlink_parser_def unpack_short)

lemma RtNetlink_parser_rtm_header:
  "RtNetlink_parser ns (rtm_header_bytes @ rest) =
     (case RtNetlink_attr_loop ns rest [] of
        None \<Rightarrow> None
      | Some (Inl e) \<Rightarrow> Some (Inl e)
      | Some (Inr (rt_atts, buf')) \<Rightarrow>
          Some (Inr (Some \<lparr>rtm_address_family = 2, rtm_dst_len = 24, rtm_src_len = 0,
                           rtm_tos = 0, rtm_table = 254, rtm_protocol = 11, rtm_scope = 0,
                           rtm_msg_type = 1, rtm_flags = 0, rtm_rt_attrs = rt_atts\<rparr>,
                     None, buf')))"
  by (simp add: rtm_header_bytes_def RtNetlink_parser_def struct_unpack_from_def
      RtNetlink_PACK_STR_def be_nat_def min_lens RtNetlink_init_def super_self
      split: option.splits sum.splits)

lemma oif_first:
  "RtAttribute_parser class_attributes oif_priority_attrs =
     Inr (Some (RtAttrOif 4 4 (Some [3])), None, [0, 4, 0, 6, 0, 0, 0, 100])"
  by (simp add: oif_priority_attrs_def RtAttribute_parser_cons get_attr_cls_cases
      call_attr_cls_def RtAttrOif_init_def super_self RtAttribute_init_ok load_PACK_STR_def
      class_attributes_simps struct_unpack_from_def be_nat_def)

lemma priority_payload_as_header:
  "RtAttribute_parser class_attributes [0, 0, 0, 100] = Inr (None, None, [])"
  by (simp add: RtAttribute_parser_cons get_attr_cls_cases)

text \<open>
  C1. The claim: an RTNETLINK payload with an OIF attribute of value 3 followed at once
  by a PRIORITY attribute of value 100 decodes to exactly these two attributes, the
  cursor moving past each attribute once. In the module's own namespace
  \<open>RtAttribute.parser\<close> raises \<open>NameError\<close> on its first line, so \<open>RtNetlink.parser\<close>
  raises and decodes no attribute. With \<open>_MIN_LEN\<close> and \<open>_PACK_STR\<close> bound to the class
  attributes, the loop slices the buffer a second time by the attribute's length after
  the attribute parser has already sliced past header and payload: the header of the
  PRIORITY attribute is skipped, its payload \<open>00 00 00 64\<close> is read as a header of
  length 0 and type 100, and the result holds one attribute, whose \<open>oif\<close> is the
  1-tuple \<open>(3,)\<close>.
\<close>

theorem c1_two_attributes_not_decoded:
  "RtNetlink_parser rtnetlink_globals (rtm_header_bytes @ oif_priority_attrs) =
     Some (Inl (NameError ''_MIN_LEN'')) \<and>
   RtNetlink_parser class_attributes (rtm_header_bytes @ oif_priority_attrs) =
     Some (Inr (Some \<lparr>rtm_address_family = 2, rtm_dst_len = 24, rtm_src_len = 0, rtm_tos = 0,
                      rtm_table = 254, rtm_protocol = 11, rtm_scope = 0, rtm_msg_type = 1,
                      rtm_flags = 0, rtm_rt_attrs = [RtAttrOif 4 4 (Some [3])]\<rparr>, None, []))"
proof
  have "oif_priority_attrs \<noteq> []" by (simp add: oif_priority_attrs_def)
  then have "RtNetlink_attr_loop rtnetlink_globals oif_priority_attrs [] =
      Some (Inl (NameError ''_MIN_LEN''))"
    by (rule loop_raise) (rule RtAttribute_parser_unbound)
  then show "RtNetlink_parser rtnetlink_globals (rtm_header_bytes @ oif_priority_attrs) =
      Some (Inl (NameError ''_MIN_LEN''))"
    by (simp add: RtNetlink_parser_rtm_header)
next
  have ne: "oif_priority_attrs \<noteq> []" by (simp add: oif_priority_attrs_def)
  have "RtNetlink_attr_loop class_attributes oif_priority_attrs [] =
      RtNetlink_attr_loop class_attributes [0, 0, 0, 100] [RtAttrOif 4 4 (Some [3])]"
    using loop_step [OF ne oif_first, of "[]"] by simp
  also have "\<dots> = Some (Inr ([RtAttrOif 4 4 (Some [3])], []))"
    by (rule loop_break [OF _ priority_payload_as_header]) simp
  finally show "RtNetlink_parser class_attributes (rtm_header_bytes @ oif_priority_attrs) =
     Some (Inr (Some \<lparr>rtm_address_family = 2, rtm_dst_len = 24, rtm_src_len = 0, rtm_tos = 0,
                      rtm_table = 254, rtm_protocol = 11, rtm_scope = 0, rtm_msg_type = 1,
                      rtm_flags = 0, rtm_rt_attrs = [RtAttrOif 4 4 (Some [3])]\<rparr>, None, []))"
    by (simp add: RtNetlink_parser_rtm_header)
qed

section \<open>Short buffers\<close>

text \<open>
  C6, as stated, at a 4-byte buffer handed to the FPM decoder: \<open>FpmHeader.parser\<close> has
  no length check of its own, \<open>struct.unpack_from\<close> raises \<open>struct.error\<close>, and the
  parser returns no triple at all.
\<close>

theorem c6_fpm_short_buffer_raises:
  "FpmHeader_parser [0, 1, 0, 1] = Inl StructError"
  by (simp add: FpmHeader_parser_def unpack_short)

text \<open>
  C6, amended: a buffer shorter than the fixed header makes \<open>FpmHeader.parser\<close> (8
  bytes), \<open>Netlink.parser\<close> (16 bytes) and \<open>RtNetlink.parser\<close> (12 bytes) raise
  \<open>struct.error\<close>, an exception that propagates to the caller. Only the attribute
  parser tests the length itself: where \<open>_MIN_LEN\<close> is bound to 4, a buffer shorter
  than 4 bytes is returned unchanged with no record.
\<close>

theorem c6_short_buffers:
  "(length buf < 8 \<longrightarrow> FpmHeader_parser buf = Inl StructError) \<and>
   (length buf < 16 \<longrightarrow> Netlink_parser buf = Inl StructError) \<and>
   (length buf < 12 \<longrightarrow> RtNetlink_parser ns buf = Some (Inl StructError)) \<and>
   (g_MIN_LEN ns = Some 4 \<and> length buf < 4 \<longrightarrow>
      RtAttribute_parser ns buf = Inr (None, None, buf))"
  by (simp add: FpmHeader_parser_def Netlink_parser_def unpack_short RtNetlink_parser_short
      RtAttribute_parser_short)

theorem c6_short_buffers_witness:
  "length [0, 1 :: byte] < 8 \<and> length [0, 1 :: byte] < 16 \<and> length [0, 1 :: byte] < 12 \<and>
   g_MIN_LEN class_attributes = Some 4 \<and> length [0, 1 :: byte] < 4 \<and>
   FpmHeader_parser [0, 1] = Inl StructError \<and>
   Netlink_parser [0, 1] = Inl StructError \<and>
   RtNetlink_parser class_attributes [0, 1] = Some (Inl StructError) \<and>
   RtAttribute_parser class_attributes [0, 1] = Inr (None, None, [0, 1])"
  using c6_short_buffers [of "[0, 1]" class_attributes]
  by (simp add: class_attributes_simps)

section \<open>Constructors called through the dispatch table\<close>

lemma unpack_I:
  "4 \<le> length d \<Longrightarrow> struct_unpack_from ''!I'' d = Inr [be_nat (take 4 d)]"
  by (simp add: struct_unpack_from_def)

lemma unpack_I_short:
  "length d < 4 \<Longrightarrow> struct_unpack_from ''!I'' d = Inl StructError"
  by (simp add: struct_unpack_from_def)

lemma call_attr_cls_Dst:
  "call_attr_cls class_attributes Cls_RtAttrDst l t d =
     (if l = 4 then (case addrconv_ipv4_bin_to_text d of Inl e \<Rightarrow> Inl e
                     | Inr a \<Rightarrow> Inr (RtAttrDst l t (Some a)))
      else if l = 16 then (case addrconv_ipv6_bin_to_text d of Inl e \<Rightarrow> Inl e
                     | Inr a \<Rightarrow> Inr (RtAttrDst l t (Some a)))
      else Inr (RtAttrDst l t None))"
  by (simp add: call_attr_cls_def RtAttrDst_init_def super_self RtAttribute_init_ok
      class_attributes_simps)

lemma call_attr_cls_Gateway:
  "call_attr_cls class_attributes Cls_RtAttrGateway l t d =
     (if l = 4 then (case addrconv_ipv4_bin_to_text d of Inl e \<Rightarrow> Inl e
                     | Inr a \<Rightarrow> Inr (RtAttrGateway l t (Some a)))
      else if l = 16 then (case addrconv_ipv6_bin_to_text d of Inl e \<Rightarrow> Inl e
                     | Inr a \<Rightarrow> Inr (RtAttrGateway l t (Some a)))
      else Inr (RtAttrGateway l t None))"
  by (simp add: call_attr_cls_def RtAttrGateway_init_def super_self RtAttribute_init_ok
      class_attributes_simps)

lemma call_attr_cls_Oif:
  "call_attr_cls class_attributes Cls_RtAttrOif l t d =
     (if l \<noteq> 4 then Inr (RtAttrOif l t None)
      else (case struct_unpack_from ''!I'' d of Inl e \<Rightarrow> Inl e
            | Inr vals \<Rightarrow> Inr (RtAttrOif l t (Some vals))))"
  by (simp add: call_attr_cls_def RtAttrOif_init_def super_self RtAttribute_init_ok
      load_PACK_STR_def class_attributes_simps)

lemma call_attr_cls_Priority:
  "call_attr_cls class_attributes Cls_RtAttrPriority l t d =
     (if l \<noteq> 4 then Inr (RtAttrPriority l t None)
      else (case struct_unpack_from ''!I'' d of Inl e \<Rightarrow> Inl e
            | Inr vals \<Rightarrow> Inr (RtAttrPriority l t (Some vals))))"
  by (simp add: call_attr_cls_def RtAttrPriority_init_def super_self RtAttribute_init_ok
      load_PACK_STR_def class_attributes_simps)

lemmas call_attr_cls_simps =
  call_attr_cls_Dst call_attr_cls_Gateway call_attr_cls_Oif call_attr_cls_Priority

lemma RTA_simps: "RTA_DST = 1" "RTA_OIF = 4" "RTA_GATEWAY = 5" "RTA_PRIORITY = 6"
  by (simp_all add: RTA_DST_def RTA_OIF_def RTA_GATEWAY_def RTA_PRIORITY_def)

lemma not_in_table:
  "t \<notin> {RTA_DST, RTA_OIF, RTA_GATEWAY, RTA_PRIORITY} \<Longrightarrow> RtAttribute_get_attr_cls t = None"
  by (simp add: get_attr_cls_cases RTA_DST_def RTA_OIF_def RTA_GATEWAY_def RTA_PRIORITY_def)

section \<open>Attribute types outside the dispatch table\<close>

text \<open>
  C2, as stated, on an RTNETLINK message whose attribute region is an attribute of type
  99 (length 4, payload \<open>01 02 03 04\<close>) followed by an OIF attribute. With the two bare
  names bound to the class attributes, the result holds no attribute at all: the type
  99 yields no record, the loop leaves at once, and the OIF attribute comes back
  undecoded in the remaining buffer. In the module's own namespace the parser raises
  \<open>NameError\<close>. In neither case is there an Unknown variant holding the payload.
\<close>

theorem c2_unknown_type_counterexample:
  "RtNetlink_parser class_attributes (rtm_header_bytes @ unknown_then_oif_attrs) =
     Some (Inr (Some \<lparr>rtm_address_family = 2, rtm_dst_len = 24, rtm_src_len = 0, rtm_tos = 0,
                      rtm_table = 254, rtm_protocol = 11, rtm_scope = 0, rtm_msg_type = 1,
                      rtm_flags = 0, rtm_rt_attrs = []\<rparr>, None, [0, 4, 0, 4, 0, 0, 0, 3])) \<and>
   RtNetlink_parser rtnetlink_globals (rtm_header_bytes @ unknown_then_oif_attrs) =
     Some (Inl (NameError ''_MIN_LEN''))"
proof
  have parsed: "RtAttribute_parser class_attributes unknown_then_oif_attrs =
      Inr (None, None, [0, 4, 0, 4, 0, 0, 0, 3])"
    by (simp add: unknown_then_oif_attrs_def RtAttribute_parser_cons get_attr_cls_cases)
  have "RtNetlink_attr_loop class_attributes unknown_then_oif_attrs [] =
      Some (Inr ([], [0, 4, 0, 4, 0, 0, 0, 3]))"
    by (rule loop_break [OF _ parsed]) (simp add: unknown_then_oif_attrs_def)
  then show "RtNetlink_parser class_attributes (rtm_header_bytes @ unknown_then_oif_attrs) =
     Some (Inr (Some \<lparr>rtm_address_family = 2, rtm_dst_len = 24, rtm_src_len = 0, rtm_tos = 0,
                      rtm_table = 254, rtm_protocol = 11, rtm_scope = 0, rtm_msg_type = 1,
                      rtm_flags = 0, rtm_rt_attrs = []\<rparr>, None, [0, 4, 0, 4, 0, 0, 0, 3]))"
    by (simp add: RtNetlink_parser_rtm_header)
next
  have "RtNetlink_attr_loop rtnetlink_globals unknown_then_oif_attrs [] =
      Some (Inl (NameError ''_MIN_LEN''))"
    by (rule loop_raise [OF _ RtAttribute_parser_unbound]) (simp add: unknown_then_oif_attrs_def)
  then show "RtNetlink_parser rtnetlink_globals (rtm_header_bytes @ unknown_then_oif_attrs) =
      Some (Inl (NameError ''_MIN_LEN''))"
    by (simp add: RtNetlink_parser_rtm_header)
qed

text \<open>
  C2, amended: an attribute type outside the dispatch table (not 1, 4, 5 or 6) has no
  class; where the bare names resolve to the class attributes, \<open>RtAttribute.parser\<close>
  returns no record for it, discards its payload and returns the buffer after header
  and payload, and the attribute loop stops there, returning the attributes collected
  before it together with that remaining buffer.
\<close>

theorem c2_unknown_type_stops_loop:
  assumes "256 * unat t1 + unat t0 \<notin> {RTA_DST, RTA_OIF, RTA_GATEWAY, RTA_PRIORITY}"
  shows "RtAttribute_get_attr_cls (256 * unat t1 + unat t0) = None \<and>
         RtAttribute_parser class_attributes (l1 # l0 # t1 # t0 # rest) =
           Inr (None, None, drop (256 * unat l1 + unat l0) rest) \<and>
         RtNetlink_attr_loop class_attributes (l1 # l0 # t1 # t0 # rest) rt_atts =
           Some (Inr (rt_atts, drop (256 * unat l1 + unat l0) rest))"
proof -
  have none: "RtAttribute_get_attr_cls (256 * unat t1 + unat t0) = None"
    using assms by (rule not_in_table)
  then have parsed: "RtAttribute_parser class_attributes (l1 # l0 # t1 # t0 # rest) =
      Inr (None, None, drop (256 * unat l1 + unat l0) rest)"
    by (simp add: RtAttribute_parser_cons)
  have "RtNetlink_attr_loop class_attributes (l1 # l0 # t1 # t0 # rest) rt_atts =
      Some (Inr (rt_atts, drop (256 * unat l1 + unat l0) rest))"
    by (rule loop_break [OF _ parsed]) simp
  with none parsed show ?thesis by simp
qed

theorem c2_unknown_type_stops_loop_witness:
  "256 * unat (0 :: byte) + unat (99 :: byte) \<notin> {RTA_DST, RTA_OIF, RTA_GATEWAY, RTA_PRIORITY} \<and>
   RtAttribute_get_attr_cls 99 = None \<and>
   RtAttribute_parser class_attributes unknown_then_oif_attrs =
     Inr (None, None, [0, 4, 0, 4, 0, 0, 0, 3]) \<and>
   RtNetlink_attr_loop class_attributes unknown_then_oif_attrs [] =
     Some (Inr ([], [0, 4, 0, 4, 0, 0, 0, 3]))"
  using c2_unknown_type_stops_loop [of 0 99 0 4 "[1, 2, 3, 4, 0, 4, 0, 4, 0, 0, 0, 3]" "[]"]
  by (simp add: unknown_then_oif_attrs_def RTA_DST_def RTA_OIF_def RTA_GATEWAY_def
      RTA_PRIORITY_def)

section \<open>The buffer returned by the attribute parser\<close>

lemma parser_by_type:
  assumes "(t = 1 \<or> t = 5) \<and> (l = 4 \<or> l = 16) \<or> (t = 4 \<or> t = 6) \<and> l = 4 \<longrightarrow>
           l \<le> length rest"
  shows "\<exists>attr.
     (case RtAttribute_get_attr_cls t of
        None \<Rightarrow> Inr (None, None, drop l rest)
      | Some attr_cls \<Rightarrow>
          (case call_attr_cls class_attributes attr_cls l t (take l rest) of
             Inl e \<Rightarrow> Inl e
           | Inr attr \<Rightarrow> Inr (Some attr, None, drop l rest))) =
     Inr (attr, None, drop l rest)"
proof -
  consider "t = 1" | "t = 4" | "t = 5" | "t = 6" | "t \<noteq> 1 \<and> t \<noteq> 4 \<and> t \<noteq> 5 \<and> t \<noteq> 6"
    by blast
  then show ?thesis
  proof cases
    case 1
    with assms show ?thesis
      by (simp add: get_attr_cls_cases call_attr_cls_Dst addrconv_ipv4_bin_to_text_def
          addrconv_ipv6_bin_to_text_def)
  next
    case 2
    with assms show ?thesis
      by (simp add: get_attr_cls_cases call_attr_cls_Oif unpack_I)
  next
    case 3
    with assms show ?thesis
      by (simp add: get_attr_cls_cases call_attr_cls_Gateway addrconv_ipv4_bin_to_text_def
          addrconv_ipv6_bin_to_text_def)
  next
    case 4
    with assms show ?thesis
      by (simp add: get_attr_cls_cases call_attr_cls_Priority unpack_I)
  next
    case 5
    then show ?thesis by (simp add: get_attr_cls_cases)
  qed
qed

text \<open>
  C10, as stated, at two buffers of at least 4 bytes. With the bare names bound to the
  class attributes, an OIF attribute that declares 4 payload bytes where 2 remain makes
  the constructor's \<open>struct.unpack_from\<close> raise: no remaining buffer is returned. In
  the module's own namespace the parser raises \<open>NameError\<close> on every buffer.
\<close>

theorem c10_truncated_payload_raises:
  "RtAttribute_parser class_attributes [0, 4, 0, 4, 0, 0] = Inl StructError \<and>
   RtAttribute_parser rtnetlink_globals [0, 4, 0, 99, 1, 2, 3, 4] = Inl (NameError ''_MIN_LEN'')"
  by (simp add: RtAttribute_parser_cons get_attr_cls_cases call_attr_cls_simps unpack_I_short
      RtAttribute_parser_unbound)

text \<open>
  C10, amended: where the bare names resolve to the class attributes and \<open>else if\<close>
  is read as \<open>elif\<close>, and the payload
  is all there whenever the attribute's class decodes the declared length (4 or 16 for
  DST and GATEWAY, 4 for OIF and PRIORITY), \<open>RtAttribute.parser\<close> on a buffer of at
  least 4 bytes returns the buffer after exactly 4 + length bytes, whatever the type
  and whether or not a record is produced.
\<close>

theorem c10_remaining_buffer:
  assumes "256 * unat l1 + unat l0 = l" and "256 * unat t1 + unat t0 = t"
    and "(t = RTA_DST \<or> t = RTA_GATEWAY) \<and> (l = 4 \<or> l = 16) \<or>
         (t = RTA_OIF \<or> t = RTA_PRIORITY) \<and> l = 4 \<longrightarrow> l \<le> length rest"
  shows "\<exists>attr. RtAttribute_parser class_attributes (l1 # l0 # t1 # t0 # rest) =
           Inr (attr, None, drop l rest)"
proof -
  from assms(3) have "(t = 1 \<or> t = 5) \<and> (l = 4 \<or> l = 16) \<or> (t = 4 \<or> t = 6) \<and> l = 4 \<longrightarrow>
      l \<le> length rest"
    by (simp only: RTA_simps)
  from parser_by_type [OF this] show ?thesis
    unfolding RtAttribute_parser_cons assms(1) assms(2) .
qed

theorem c10_remaining_buffer_witness:
  "256 * unat (0 :: byte) + unat (4 :: byte) = (4 :: nat) \<and>
   (4 :: nat) \<le> length [0, 0, 0, 3, 0, 4 :: byte] \<and>
   (\<exists>attr. RtAttribute_parser class_attributes [0, 4, 0, 4, 0, 0, 0, 3, 0, 4] =
             Inr (attr, None, [0, 4]))"
  using c10_remaining_buffer [of 0 4 4 0 4 4 "[0, 0, 0, 3, 0, 4]"]
  by (simp add: RTA_simps)

section \<open>Malformed tails\<close>

lemma truncated_by_type:
  assumes "length rest < l"
    and "(t = 1 \<or> t = 5 \<longrightarrow> l \<noteq> 4 \<and> l \<noteq> 16) \<and> (t = 4 \<or> t = 6 \<longrightarrow> l \<noteq> 4)"
  shows "(case RtAttribute_get_attr_cls t of
        None \<Rightarrow> Inr (None, None, drop l rest)
      | Some attr_cls \<Rightarrow>
          (case call_attr_cls class_attributes attr_cls l t (take l rest) of
             Inl e \<Rightarrow> Inl e
           | Inr attr \<Rightarrow> Inr (Some attr, None, drop l rest))) =
     Inr (if t = 1 then Some (RtAttrDst l t None)
          else if t = 4 then Some (RtAttrOif l t None)
          else if t = 5 then Some (RtAttrGateway l t None)
          else if t = 6 then Some (RtAttrPriority l t None)
          else None, None, [])"
proof -
  consider "t = 1" | "t = 4" | "t = 5" | "t = 6" | "t \<noteq> 1 \<and> t \<noteq> 4 \<and> t \<noteq> 5 \<and> t \<noteq> 6"
    by blast
  then show ?thesis
  proof cases
    case 1
    with assms show ?thesis by (simp add: get_attr_cls_cases call_attr_cls_Dst)
  next
    case 2
    with assms show ?thesis by (simp add: get_attr_cls_cases call_attr_cls_Oif)
  next
    case 3
    with assms show ?thesis by (simp add: get_attr_cls_cases call_attr_cls_Gateway)
  next
    case 4
    with assms show ?thesis by (simp add: get_attr_cls_cases call_attr_cls_Priority)
  next
    case 5
    with assms show ?thesis by (simp add: get_attr_cls_cases)
  qed
qed

lemma loop_truncated:
  assumes parsed: "RtAttribute_parser ns buf = Inr (r, None, [])" and ne: "buf \<noteq> []"
  shows "RtNetlink_attr_loop ns buf rt_atts =
     Some (Inr (rt_atts @ (case r of None \<Rightarrow> [] | Some a \<Rightarrow> [a]), []))"
proof (cases r)
  case None
  with parsed ne show ?thesis by (simp add: loop_break)
next
  case (Some a)
  with parsed have "RtAttribute_parser ns buf = Inr (Some a, None, [])" by simp
  from loop_step [OF ne this] Some show ?thesis by (simp add: loop_Nil)
qed

text \<open>
  C4, as stated, on an RTNETLINK message whose attribute region is an OIF attribute
  declaring 4 payload bytes with 2 remaining. With the bare names bound to the class
  attributes the constructor's \<open>struct.unpack_from\<close> raises \<open>struct.error\<close>, which
  nothing catches: \<open>RtNetlink.parser\<close> raises and returns no partial result. In the
  module's own namespace it raises \<open>NameError\<close>.
\<close>

theorem c4_truncated_oif_raises:
  "RtNetlink_parser class_attributes (rtm_header_bytes @ truncated_oif_attr) =
     Some (Inl StructError) \<and>
   RtNetlink_parser rtnetlink_globals (rtm_header_bytes @ truncated_oif_attr) =
     Some (Inl (NameError ''_MIN_LEN''))"
proof
  have parsed: "RtAttribute_parser class_attributes truncated_oif_attr = Inl StructError"
    by (simp add: truncated_oif_attr_def RtAttribute_parser_cons get_attr_cls_cases
        call_attr_cls_Oif unpack_I_short)
  have "RtNetlink_attr_loop class_attributes truncated_oif_attr [] = Some (Inl StructError)"
    by (rule loop_raise [OF _ parsed]) (simp add: truncated_oif_attr_def)
  then show "RtNetlink_parser class_attributes (rtm_header_bytes @ truncated_oif_attr) =
      Some (Inl StructError)"
    by (simp add: RtNetlink_parser_rtm_header)
next
  have "RtNetlink_attr_loop rtnetlink_globals truncated_oif_attr [] =
      Some (Inl (NameError ''_MIN_LEN''))"
    by (rule loop_raise [OF _ RtAttribute_parser_unbound]) (simp add: truncated_oif_attr_def)
  then show "RtNetlink_parser rtnetlink_globals (rtm_header_bytes @ truncated_oif_attr) =
      Some (Inl (NameError ''_MIN_LEN''))"
    by (simp add: RtNetlink_parser_rtm_header)
qed

text \<open>
  C4, amended: where the bare names resolve to the class attributes and \<open>else if\<close> is
  read as \<open>elif\<close>, (a) when fewer than
  4 bytes remain the loop stops and returns the attributes decoded so far with those
  bytes; (b) a declared length is never checked against the bytes remaining: when it
  exceeds them and is not a length the attribute's class decodes (4 or 16 for DST and
  GATEWAY, 4 for OIF and PRIORITY), an attribute of a type in the table is appended
  with an absent value, one of another type yields no record, the buffer is exhausted,
  and the attributes are returned without a failure.
\<close>

theorem c4_malformed_tail:
  "(buf \<noteq> [] \<and> length buf < 4 \<longrightarrow>
      RtNetlink_attr_loop class_attributes buf rt_atts = Some (Inr (rt_atts, buf))) \<and>
   (256 * unat l1 + unat l0 = l \<and> 256 * unat t1 + unat t0 = t \<and> length rest < l \<and>
    (t = RTA_DST \<or> t = RTA_GATEWAY \<longrightarrow> l \<noteq> 4 \<and> l \<noteq> 16) \<and>
    (t = RTA_OIF \<or> t = RTA_PRIORITY \<longrightarrow> l \<noteq> 4) \<longrightarrow>
      RtNetlink_attr_loop class_attributes (l1 # l0 # t1 # t0 # rest) rt_atts =
        Some (Inr (rt_atts @
                   (if t = RTA_DST then [RtAttrDst l t None]
                    else if t = RTA_OIF then [RtAttrOif l t None]
                    else if t = RTA_GATEWAY then [RtAttrGateway l t None]
                    else if t = RTA_PRIORITY then [RtAttrPriority l t None]
                    else []), [])))"
proof (intro conjI impI)
  assume a: "buf \<noteq> [] \<and> length buf < 4"
  then have "RtAttribute_parser class_attributes buf = Inr (None, None, buf)"
    by (simp add: RtAttribute_parser_short [where m = 4] class_attributes_simps)
  with a show "RtNetlink_attr_loop class_attributes buf rt_atts = Some (Inr (rt_atts, buf))"
    by (simp add: loop_break)
next
  assume a: "256 * unat l1 + unat l0 = l \<and> 256 * unat t1 + unat t0 = t \<and> length rest < l \<and>
    (t = RTA_DST \<or> t = RTA_GATEWAY \<longrightarrow> l \<noteq> 4 \<and> l \<noteq> 16) \<and>
    (t = RTA_OIF \<or> t = RTA_PRIORITY \<longrightarrow> l \<noteq> 4)"
  then have l: "256 * unat l1 + unat l0 = l" and t: "256 * unat t1 + unat t0 = t"
    and short: "length rest < l"
    and sel: "(t = 1 \<or> t = 5 \<longrightarrow> l \<noteq> 4 \<and> l \<noteq> 16) \<and> (t = 4 \<or> t = 6 \<longrightarrow> l \<noteq> 4)"
    unfolding RTA_simps by blast+
  have "RtAttribute_parser class_attributes (l1 # l0 # t1 # t0 # rest) =
     Inr (if t = 1 then Some (RtAttrDst l t None)
          else if t = 4 then Some (RtAttrOif l t None)
          else if t = 5 then Some (RtAttrGateway l t None)
          else if t = 6 then Some (RtAttrPriority l t None)
          else None, None, [])"
    using truncated_by_type [OF short sel] unfolding RtAttribute_parser_cons l t .
  from loop_truncated [OF this, of rt_atts]
  show "RtNetlink_attr_loop class_attributes (l1 # l0 # t1 # t0 # rest) rt_atts =
        Some (Inr (rt_atts @
                   (if t = RTA_DST then [RtAttrDst l t None]
                    else if t = RTA_OIF then [RtAttrOif l t None]
                    else if t = RTA_GATEWAY then [RtAttrGateway l t None]
                    else if t = RTA_PRIORITY then [RtAttrPriority l t None]
                    else []), []))"
    by (simp add: RTA_simps)
qed

theorem c4_malformed_tail_witness:
  "[0, 1 :: byte] \<noteq> [] \<and> length [0, 1 :: byte] < 4 \<and>
   RtNetlink_attr_loop class_attributes [0, 1] [RtAttrOif 4 4 (Some [3])] =
     Some (Inr ([RtAttrOif 4 4 (Some [3])], [0, 1])) \<and>
   256 * unat (0 :: byte) + unat (20 :: byte) = (20 :: nat) \<and>
   256 * unat (0 :: byte) + unat (1 :: byte) = (1 :: nat) \<and>
   length [1, 2, 3, 4, 5, 6, 7, 8, 9, 10 :: byte] < 20 \<and>
   RtNetlink_attr_loop class_attributes [0, 20, 0, 1, 1, 2, 3, 4, 5, 6, 7, 8, 9, 10]
       [RtAttrOif 4 4 (Some [3])] =
     Some (Inr ([RtAttrOif 4 4 (Some [3]), RtAttrDst 20 1 None], []))"
  using c4_malformed_tail [of "[0, 1]" "[RtAttrOif 4 4 (Some [3])]" 0 20 20 0 1 1
      "[1, 2, 3, 4, 5, 6, 7, 8, 9, 10]"]
  by (simp add: RTA_simps)

end
